theory Spec2Isabelle
  imports Main
begin

section \<open>Python text operations used by the reader loop\<close>

text \<open>
  The reader decodes each chunk returned by \<^verbatim>\<open>conn.recv(1024)\<close> and works on the
  resulting text. The text is modelled as a \<^typ>\<open>string\<close> of ASCII characters; the
  operations below are the Python built-ins \<^verbatim>\<open>str.strip\<close>, \<^verbatim>\<open>str.startswith\<close>,
  \<^verbatim>\<open>str.lower\<close>, \<^verbatim>\<open>str.split(":", 1)[1]\<close>, \<^verbatim>\<open>int\<close> and \<^verbatim>\<open>str\<close> on that
  range.
\<close>

definition py_isspace :: "char \<Rightarrow> bool" where
  "py_isspace c \<longleftrightarrow> of_char c \<in> set [9, 10, 11, 12, 13, 28, 29, 30, 31, 32 :: nat]"

definition py_strip :: "string \<Rightarrow> string" where
  "py_strip s = rev (dropWhile py_isspace (rev (dropWhile py_isspace s)))"

definition py_startswith :: "string \<Rightarrow> string \<Rightarrow> bool" where
  "py_startswith s p \<longleftrightarrow> take (length p) s = p"

definition py_lower_char :: "char \<Rightarrow> char" where
  "py_lower_char c =
     (let n = (of_char c :: nat) in if 65 \<le> n \<and> n \<le> 90 then char_of (n + 32) else c)"

definition py_lower :: "string \<Rightarrow> string" where
  "py_lower s = map py_lower_char s"

text \<open>
  \<^verbatim>\<open>message.split(":", 1)[1]\<close>: the text after the first colon. Without a colon the
  split has one element and the index raises \<^verbatim>\<open>IndexError\<close>, here \<open>None\<close>.
\<close>

definition py_split_colon_1 :: "string \<Rightarrow> string option" where
  "py_split_colon_1 s =
     (case dropWhile (\<lambda>c. c \<noteq> CHR '':'') s of [] \<Rightarrow> None | _ # r \<Rightarrow> Some r)"

definition py_isdigit :: "char \<Rightarrow> bool" where
  "py_isdigit c \<longleftrightarrow> 48 \<le> (of_char c :: nat) \<and> (of_char c :: nat) \<le> 57"

definition py_digit_val :: "char \<Rightarrow> int" where
  "py_digit_val c = int (of_char c) - 48"

text \<open>
  \<^verbatim>\<open>int(text)\<close> in base ten on ASCII text: the whitespace skipped on both sides is
  that of C (tab, line feed, vertical tab, form feed, carriage return, space), which is
  narrower than what \<^verbatim>\<open>str.strip\<close> removes; one sign is allowed, then decimal digits,
  with single underscores allowed between digits. Anything else raises
  \<^verbatim>\<open>ValueError\<close>, here \<open>None\<close>. The texts read here come from chunks of at most
  1024 bytes, far below the limit that newer interpreters put on the number of digits.
\<close>

definition py_int_isspace :: "char \<Rightarrow> bool" where
  "py_int_isspace c \<longleftrightarrow> of_char c \<in> set [9, 10, 11, 12, 13, 32 :: nat]"

fun py_int_digits :: "int \<Rightarrow> string \<Rightarrow> int option" where
  "py_int_digits acc [] = Some acc"
| "py_int_digits acc (c # cs) =
     (if py_isdigit c then py_int_digits (10 * acc + py_digit_val c) cs
      else if c = CHR ''_'' then
        (case cs of
           [] \<Rightarrow> None
         | d # ds \<Rightarrow>
             if py_isdigit d then py_int_digits (10 * acc + py_digit_val d) ds else None)
      else None)"

definition py_int_body :: "string \<Rightarrow> int option" where
  "py_int_body s =
     (case s of
        [] \<Rightarrow> None
      | c # cs \<Rightarrow> if py_isdigit c then py_int_digits (py_digit_val c) cs else None)"

definition py_int :: "string \<Rightarrow> int option" where
  "py_int s =
     (case rev (dropWhile py_int_isspace (rev (dropWhile py_int_isspace s))) of
        [] \<Rightarrow> None
      | c # cs \<Rightarrow>
          if c = CHR ''-'' then map_option uminus (py_int_body cs)
          else if c = CHR ''+'' then py_int_body cs
          else py_int_body (c # cs))"

text \<open>\<^verbatim>\<open>str(n)\<close> for an integer, as the f-strings of the program format a port.\<close>

function py_str_nat :: "nat \<Rightarrow> string" where
  "py_str_nat n =
     (if n < 10 then [char_of (48 + n)]
      else py_str_nat (n div 10) @ [char_of (48 + n mod 10)])"
  by pat_completeness auto
termination
  by (relation "measure id") auto

definition py_str_int :: "int \<Rightarrow> string" where
  "py_str_int i = (if i < 0 then CHR ''-'' # py_str_nat (nat (- i)) else py_str_nat (nat i))"

section \<open>Data model\<close>

text \<open>
  A peer address is the pair \<^verbatim>\<open>(ip, port)\<close> that keys \<^verbatim>\<open>active_peers\<close>. A socket
  object is identified by the order of its creation. The repository holds the peer
  logic twice: the command-line program \<^verbatim>\<open>P2P_Chat_Snitcher.py\<close> and the web
  program \<^verbatim>\<open>app.py\<close>; \<open>program\<close> says which of the two is running.
\<close>

type_synonym peer_address = "string \<times> int"

type_synonym sock = nat

datatype program = P2P_Chat_Snitcher | App

text \<open>One constructor for each \<^verbatim>\<open>print\<close> of the peer functions.\<close>

datatype log_line =
    Info_connection_closed peer_address
  | Error_invalid_connect peer_address
  | Info_updated_connection peer_address
  | Info_sent_exit peer_address
  | Message_from peer_address string
  | Error_exception peer_address
  | Info_accepted peer_address
  | Debug_attempting peer_address
  | Error_could_not_connect peer_address
  | Info_message_sent peer_address
  | Error_failed_to_send
  | Info_sent_connection peer_address
  | Error_failed_to_send_connection

text \<open>
  The state of one node: the global dictionary \<^verbatim>\<open>active_peers\<close>, every call of
  \<^verbatim>\<open>close()\<close> on a socket in the order made, the running \<^verbatim>\<open>handle_client\<close>
  threads with the value of their local \<^verbatim>\<open>current_peer\<close>, the number of socket
  objects created so far, the lines printed, the \<^verbatim>\<open>chat_history\<close> of
  \<^verbatim>\<open>app.py\<close> (sender and message; the time stamp is left out), and the texts
  written by the calls of \<^verbatim>\<open>sendall\<close> that returned, each with its socket.
\<close>

record node =
  active_peers :: "peer_address \<rightharpoonup> sock"
  close_calls :: "sock list"
  readers :: "sock \<rightharpoonup> peer_address"
  next_sock :: sock
  printed :: "log_line list"
  chat_history :: "(string \<times> string) list"
  sent :: "(sock \<times> string) list"

definition initial_node :: node where
  "initial_node =
     \<lparr>active_peers = Map.empty, close_calls = [], readers = Map.empty, next_sock = 0,
      printed = [], chat_history = [], sent = []\<rparr>"

definition print_line :: "log_line \<Rightarrow> node \<Rightarrow> node" where
  "print_line l st = st\<lparr>printed := printed st @ [l]\<rparr>"

definition peer_label :: "peer_address \<Rightarrow> string" where
  "peer_label p = fst p @ '':'' @ py_str_int (snd p)"

definition add_chat_message :: "string \<Rightarrow> string \<Rightarrow> node \<Rightarrow> node" where
  "add_chat_message sender message st =
     st\<lparr>chat_history := chat_history st @ [(sender, message)]\<rparr>"

section \<open>The reader: \<^verbatim>\<open>handle_client\<close>\<close>

text \<open>
  The block under \<^verbatim>\<open>peers_lock\<close> that \<^verbatim>\<open>handle_client\<close> runs for a
  \<^verbatim>\<open>CONNECT:\<close> frame, the same in both programs: pop \<^verbatim>\<open>current_peer\<close> if it is a
  key, close the socket found at \<^verbatim>\<open>new_peer\<close> if there is one (an exception of the
  close is swallowed), store \<^verbatim>\<open>conn\<close> at \<^verbatim>\<open>new_peer\<close>.
\<close>

definition rekey :: "peer_address \<Rightarrow> peer_address \<Rightarrow> sock \<Rightarrow> node \<Rightarrow> node" where
  "rekey current_peer new_peer conn st =
     (let popped =
            (if current_peer \<in> dom (active_peers st)
             then (active_peers st)(current_peer := None) else active_peers st);
          closes =
            (case popped new_peer of
               Some elder \<Rightarrow> close_calls st @ [elder]
             | None \<Rightarrow> close_calls st)
      in st\<lparr>active_peers := popped(new_peer \<mapsto> conn), close_calls := closes\<rparr>)"

text \<open>
  What \<^verbatim>\<open>conn.recv(1024)\<close> followed by \<^verbatim>\<open>data.decode()\<close> gives: the decoded text,
  empty when the peer has closed the stream, or an exception of either call.
\<close>

datatype recv_result = Data string | Raises

text \<open>
  The texts the theorems speak about: what a \<^verbatim>\<open>recv(1024)\<close> can give, at most 1024
  characters, all of them ASCII, the range on which the text operations above are those
  of Python.
\<close>

definition received_text :: "string \<Rightarrow> bool" where
  "received_text data \<longleftrightarrow>
     length data \<le> 1024 \<and> list_all (\<lambda>c. (of_char c :: nat) < 128) data"

datatype loop_control = Continue | Break

text \<open>
  An ordinary message: printed by both programs, and added to the chat history by
  \<^verbatim>\<open>app.py\<close>.
\<close>

definition deliver :: "program \<Rightarrow> peer_address \<Rightarrow> string \<Rightarrow> node \<Rightarrow> node" where
  "deliver prog current_peer message st =
     (let st1 = print_line (Message_from current_peer message) st
      in if prog = App then add_chat_message (peer_label current_peer) message st1 else st1)"

text \<open>
  One iteration of the \<^verbatim>\<open>while\<close> loop of \<^verbatim>\<open>handle_client\<close>. The result is whether
  the loop goes on, the value of \<^verbatim>\<open>current_peer\<close> afterwards and the new state. Only
  \<^verbatim>\<open>app.py\<close> assigns \<^verbatim>\<open>current_peer = new_peer\<close> after the re-key. A
  \<^verbatim>\<open>ValueError\<close> of \<^verbatim>\<open>int\<close> is caught inside the loop; any other exception reaches
  the outer handler, which prints and leaves the loop.
\<close>

definition handle_frame ::
  "program \<Rightarrow> sock \<Rightarrow> peer_address \<Rightarrow> recv_result \<Rightarrow> node \<Rightarrow>
     loop_control \<times> peer_address \<times> node" where
  "handle_frame prog conn current_peer r st =
     (case r of
        Raises \<Rightarrow> (Break, current_peer, print_line (Error_exception current_peer) st)
      | Data data \<Rightarrow>
          if data = [] then
            (Break, current_peer, print_line (Info_connection_closed current_peer) st)
          else
            let message = py_strip data in
            if message = [] then (Continue, current_peer, st)
            else if py_startswith message ''CONNECT:'' then
              (case py_split_colon_1 message of
                 None \<Rightarrow> (Break, current_peer, print_line (Error_exception current_peer) st)
               | Some port_text \<Rightarrow>
                   (case py_int port_text of
                      None \<Rightarrow>
                        (Continue, current_peer,
                         print_line (Error_invalid_connect current_peer) st)
                    | Some sender_listen_port \<Rightarrow>
                        let new_peer = (fst current_peer, sender_listen_port);
                            st1 = rekey current_peer new_peer conn st
                        in (Continue,
                            (if prog = App then new_peer else current_peer),
                            print_line (Info_updated_connection new_peer) st1)))
            else if py_lower message = ''exit'' then
              (Break, current_peer, print_line (Info_sent_exit current_peer) st)
            else (Continue, current_peer, deliver prog current_peer message st))"

text \<open>
  The \<^verbatim>\<open>finally\<close> block: under the lock, pop \<^verbatim>\<open>current_peer\<close> if it is a key of
  \<^verbatim>\<open>active_peers\<close>; then \<^verbatim>\<open>conn.close()\<close>.
\<close>

definition handle_client_finally :: "sock \<Rightarrow> peer_address \<Rightarrow> node \<Rightarrow> node" where
  "handle_client_finally conn current_peer st =
     st\<lparr>active_peers :=
          (if current_peer \<in> dom (active_peers st)
           then (active_peers st)(current_peer := None) else active_peers st),
        close_calls := close_calls st @ [conn]\<rparr>"

text \<open>
  The loop over the results of the successive \<^verbatim>\<open>recv\<close> calls. When the list is used
  up, \<^verbatim>\<open>shutdown_event\<close> is set and the loop condition ends the loop.
\<close>

fun handle_client_loop ::
  "program \<Rightarrow> sock \<Rightarrow> peer_address \<Rightarrow> recv_result list \<Rightarrow> node \<Rightarrow> peer_address \<times> node" where
  "handle_client_loop prog conn current_peer [] st = (current_peer, st)"
| "handle_client_loop prog conn current_peer (r # rs) st =
     (case handle_frame prog conn current_peer r st of
        (Break, current_peer', st') \<Rightarrow> (current_peer', st')
      | (Continue, current_peer', st') \<Rightarrow> handle_client_loop prog conn current_peer' rs st')"

definition handle_client ::
  "program \<Rightarrow> sock \<Rightarrow> peer_address \<Rightarrow> recv_result list \<Rightarrow> node \<Rightarrow> node" where
  "handle_client prog conn addr rs st =
     (case handle_client_loop prog conn addr rs st of
        (current_peer, st') \<Rightarrow> handle_client_finally conn current_peer st')"

section \<open>The listener: \<^verbatim>\<open>server_thread\<close>\<close>

text \<open>
  One iteration of the accept loop in which \<^verbatim>\<open>accept\<close> returns a connection from
  \<open>addr\<close>: the new socket object is stored at \<open>addr\<close> by a plain assignment and a
  \<^verbatim>\<open>handle_client\<close> thread is started for it with \<open>addr\<close>.
\<close>

definition server_thread_accept :: "peer_address \<Rightarrow> node \<Rightarrow> node" where
  "server_thread_accept addr st =
     (let conn = next_sock st;
          st1 = print_line (Info_accepted addr) (st\<lparr>next_sock := Suc conn\<rparr>)
      in st1\<lparr>active_peers := (active_peers st1)(addr \<mapsto> conn),
             readers := (readers st1)(conn \<mapsto> addr)\<rparr>)"

section \<open>The sender: \<^verbatim>\<open>send_message\<close> and \<^verbatim>\<open>connect_to_peer\<close>\<close>

text \<open>
  The outcome of \<^verbatim>\<open>sock.connect(target)\<close>: an exception, or a connection whose
  \<^verbatim>\<open>getpeername()\<close> is the given address.
\<close>

datatype connect_result = Connect_raises | Connected peer_address

text \<open>
  The first half of both \<^verbatim>\<open>send_message\<close> and \<^verbatim>\<open>connect_to_peer\<close>, which is the
  same text in the two functions: \<^verbatim>\<open>active_peers.get(target)\<close>, and when that is
  \<^verbatim>\<open>None\<close> a new socket is created and connected, stored under its
  \<^verbatim>\<open>getpeername()\<close> by a plain assignment, and given a \<^verbatim>\<open>handle_client\<close> thread.
  The result is \<open>None\<close> when the function returns from its \<^verbatim>\<open>except\<close> branch.
\<close>

definition lookup_or_connect ::
  "peer_address \<Rightarrow> connect_result \<Rightarrow> node \<Rightarrow> sock option \<times> node" where
  "lookup_or_connect target c st =
     (case active_peers st target of
        Some sock \<Rightarrow> (Some sock, st)
      | None \<Rightarrow>
          let sock = next_sock st;
              st1 = print_line (Debug_attempting target) (st\<lparr>next_sock := Suc sock\<rparr>)
          in (case c of
                Connect_raises \<Rightarrow> (None, print_line (Error_could_not_connect target) st1)
              | Connected peername \<Rightarrow>
                  (Some sock,
                   st1\<lparr>active_peers := (active_peers st1)(peername \<mapsto> sock),
                       readers := (readers st1)(sock \<mapsto> peername)\<rparr>)))"

text \<open>
  \<^verbatim>\<open>active_peers.pop(target, None)\<close> under the lock, then \<^verbatim>\<open>sock.close()\<close>.
\<close>

definition pop_and_close :: "peer_address \<Rightarrow> sock \<Rightarrow> node \<Rightarrow> node" where
  "pop_and_close target sock st =
     st\<lparr>active_peers := (active_peers st)(target := None),
        close_calls := close_calls st @ [sock]\<rparr>"

text \<open>
  \<^verbatim>\<open>send_message(target_ip, target_port, message)\<close>. \<open>sendall_ok\<close> says whether
  \<^verbatim>\<open>sock.sendall\<close> returns or raises. The first component of the result is the value
  the Python function hands to its caller: the function has one bare \<^verbatim>\<open>return\<close> and
  otherwise runs to its end, which is \<^verbatim>\<open>None\<close> in Python, here \<open>None\<close>; a status
  would be \<open>Some\<close> of it.
\<close>

definition send_message ::
  "peer_address \<Rightarrow> string \<Rightarrow> connect_result \<Rightarrow> bool \<Rightarrow> node \<Rightarrow> bool option \<times> node" where
  "send_message target message c sendall_ok st =
     (case lookup_or_connect target c st of
        (None, st1) \<Rightarrow> (None, st1)
      | (Some sock, st1) \<Rightarrow>
          if sendall_ok then
            let st2 = print_line (Info_message_sent target)
                        (st1\<lparr>sent := sent st1 @ [(sock, message)]\<rparr>)
            in if py_lower message = ''exit'' then (None, pop_and_close target sock st2)
               else (None, st2)
          else
            (None, pop_and_close target sock (print_line Error_failed_to_send st1)))"

text \<open>
  \<^verbatim>\<open>connect_to_peer(target_ip, target_port)\<close>, with the global
  \<^verbatim>\<open>my_listen_port\<close> as a parameter.
\<close>

definition connect_to_peer ::
  "int \<Rightarrow> peer_address \<Rightarrow> connect_result \<Rightarrow> bool \<Rightarrow> node \<Rightarrow> bool option \<times> node" where
  "connect_to_peer my_listen_port target c sendall_ok st =
     (case lookup_or_connect target c st of
        (None, st1) \<Rightarrow> (None, st1)
      | (Some sock, st1) \<Rightarrow>
          let connect_msg = ''CONNECT:'' @ py_str_int my_listen_port in
          if sendall_ok then
            (None, print_line (Info_sent_connection target)
                     (st1\<lparr>sent := sent st1 @ [(sock, connect_msg)]\<rparr>))
          else
            (None, pop_and_close target sock
                     (print_line Error_failed_to_send_connection st1)))"

section \<open>The node as a whole\<close>

text \<open>
  Every change of \<^verbatim>\<open>active_peers\<close> happens under \<^verbatim>\<open>peers_lock\<close>, so a run of the
  node is a sequence of actions of its threads: the listener accepts a connection, a
  reader thread does one iteration of its loop on what \<^verbatim>\<open>recv\<close> gave it (followed
  by its \<^verbatim>\<open>finally\<close> block when the iteration leaves the loop), a reader thread
  finds \<^verbatim>\<open>shutdown_event\<close> set, or the front end calls \<^verbatim>\<open>send_message\<close> or
  \<^verbatim>\<open>connect_to_peer\<close>. An action of a reader that is not running changes nothing.
\<close>

datatype action =
    Accept peer_address
  | Recv sock recv_result
  | Reader_sees_shutdown sock
  | Send_message peer_address string connect_result bool
  | Connect_to_peer int peer_address connect_result bool

definition reader_exit :: "sock \<Rightarrow> peer_address \<Rightarrow> node \<Rightarrow> node" where
  "reader_exit conn current_peer st =
     (handle_client_finally conn current_peer st)\<lparr>readers := (readers st)(conn := None)\<rparr>"

fun step :: "program \<Rightarrow> action \<Rightarrow> node \<Rightarrow> node" where
  "step prog (Accept addr) st = server_thread_accept addr st"
| "step prog (Recv conn r) st =
     (case readers st conn of
        None \<Rightarrow> st
      | Some current_peer \<Rightarrow>
          (case handle_frame prog conn current_peer r st of
             (Continue, current_peer', st') \<Rightarrow>
               st'\<lparr>readers := (readers st')(conn \<mapsto> current_peer')\<rparr>
           | (Break, current_peer', st') \<Rightarrow> reader_exit conn current_peer' st'))"
| "step prog (Reader_sees_shutdown conn) st =
     (case readers st conn of
        None \<Rightarrow> st
      | Some current_peer \<Rightarrow> reader_exit conn current_peer st)"
| "step prog (Send_message target message c ok) st = snd (send_message target message c ok st)"
| "step prog (Connect_to_peer port target c ok) st = snd (connect_to_peer port target c ok st)"

fun run :: "program \<Rightarrow> action list \<Rightarrow> node \<Rightarrow> node" where
  "run prog [] st = st"
| "run prog (a # as) st = run prog as (step prog a st)"

text \<open>
  The invariant of the registry of \<^verbatim>\<open>app.py\<close>: a socket stored in \<^verbatim>\<open>active_peers\<close>
  has a running reader whose \<^verbatim>\<open>current_peer\<close> is the key it is stored under, and
  every running reader belongs to a socket already created.
\<close>

definition registry_owned :: "node \<Rightarrow> bool" where
  "registry_owned st \<longleftrightarrow>
     (\<forall>a c. active_peers st a = Some c \<longrightarrow> readers st c = Some a) \<and>
     (\<forall>c a. readers st c = Some a \<longrightarrow> c < next_sock st)"

section \<open>Facts about the frame dispatch\<close>

lemma py_strip_Nil: "py_strip [] = []"
  by (simp add: py_strip_def)

lemma startswith_connect_decomp:
  assumes "py_startswith m ''CONNECT:''"
  shows "m = ''CONNECT:'' @ drop 8 m"
proof -
  have l: "length ''CONNECT:'' = 8" by simp
  have "take 8 m = ''CONNECT:''" using assms unfolding py_startswith_def l .
  then show ?thesis by (metis append_take_drop_id)
qed

text \<open>
  After the \<^verbatim>\<open>startswith\<close> test the split cannot fail: the first colon is the one of
  the prefix, and the port text is what follows the eight characters of \<^verbatim>\<open>CONNECT:\<close>.
\<close>

lemma split_after_connect:
  assumes "py_startswith m ''CONNECT:''"
  shows "py_split_colon_1 m = Some (drop 8 m)"
proof -
  obtain r where r: "r = drop 8 m" by simp
  have m: "m = ''CONNECT:'' @ r" using startswith_connect_decomp [OF assms] r by simp
  show ?thesis unfolding r [symmetric] by (subst m) (simp add: py_split_colon_1_def)
qed

lemma exit_not_connect:
  assumes "py_lower m = ''exit''"
  shows "m \<noteq> []" and "\<not> py_startswith m ''CONNECT:''"
proof -
  have "length (py_lower m) = 4" unfolding assms by simp
  then have len: "length m = 4" by (simp add: py_lower_def)
  show "m \<noteq> []" using len by auto
  show "\<not> py_startswith m ''CONNECT:''"
  proof
    assume "py_startswith m ''CONNECT:''"
    then have "m = ''CONNECT:'' @ drop 8 m" by (rule startswith_connect_decomp)
    then have "length m = length (''CONNECT:'' @ drop 8 m)" by simp
    then show False using len by simp
  qed
qed

lemma active_peers_print_line [simp]: "active_peers (print_line l st) = active_peers st"
  by (simp add: print_line_def)

lemma active_peers_rekey:
  "active_peers (rekey cur new conn st) = ((active_peers st)(cur := None))(new \<mapsto> conn)"
  by (auto simp: rekey_def Let_def fun_eq_iff split: option.splits)

text \<open>
  A frame whose trimmed text starts with \<^verbatim>\<open>CONNECT:\<close> and whose remainder is read by
  \<^verbatim>\<open>int\<close> as \<open>p\<close> runs the re-key and goes on with the loop.
\<close>

lemma handle_frame_connect:
  assumes sw: "py_startswith (py_strip data) ''CONNECT:''"
      and pi: "py_int (drop 8 (py_strip data)) = Some p"
  shows "handle_frame prog conn cur (Data data) st =
           (Continue, (if prog = App then (fst cur, p) else cur),
            print_line (Info_updated_connection (fst cur, p)) (rekey cur (fst cur, p) conn st))"
proof -
  have ne: "py_strip data \<noteq> []" using sw by (auto simp: py_startswith_def)
  then have dne: "data \<noteq> []" using py_strip_Nil by auto
  show ?thesis
    using ne dne sw pi split_after_connect [OF sw]
    by (simp add: handle_frame_def Let_def)
qed

text \<open>
  A frame that starts with \<^verbatim>\<open>CONNECT:\<close> and whose remainder \<^verbatim>\<open>int\<close> refuses is
  reported and dropped: the loop goes on and nothing but the printed lines changes. The
  separator characters 28 to 31, which \<^verbatim>\<open>strip\<close> removes, are refused by \<^verbatim>\<open>int\<close>.
\<close>

lemma handle_frame_invalid_connect:
  assumes sw: "py_startswith (py_strip data) ''CONNECT:''"
      and pi: "py_int (drop 8 (py_strip data)) = None"
  shows "handle_frame prog conn cur (Data data) st =
           (Continue, cur, print_line (Error_invalid_connect cur) st)"
proof -
  have ne: "py_strip data \<noteq> []" using sw by (auto simp: py_startswith_def)
  then have dne: "data \<noteq> []" using py_strip_Nil by auto
  show ?thesis
    using ne dne sw pi split_after_connect [OF sw]
    by (simp add: handle_frame_def Let_def)
qed

lemma int_refuses_file_separator: "py_int ([CHR 0x1C] @ ''8000'') = None"
  by code_simp

text \<open>
  The three ways out of the loop on a received chunk: an exception, a zero-length read,
  and a text that is \<^verbatim>\<open>exit\<close> in any letter case. None of them touches the registry
  before the \<^verbatim>\<open>finally\<close> block.
\<close>

lemma handle_frame_exit_reasons:
  assumes "r = Raises \<or> r = Data [] \<or> (\<exists>d. r = Data d \<and> py_lower (py_strip d) = ''exit'')"
  shows "fst (handle_frame prog conn cur r st) = Break"
    and "fst (snd (handle_frame prog conn cur r st)) = cur"
    and "active_peers (snd (snd (handle_frame prog conn cur r st))) = active_peers st"
    and "close_calls (snd (snd (handle_frame prog conn cur r st))) = close_calls st"
    and "readers (snd (snd (handle_frame prog conn cur r st))) = readers st"
proof -
  consider "r = Raises" | "r = Data []" | d where "r = Data d" "py_lower (py_strip d) = ''exit''"
    using assms by blast
  then have "\<exists>l. handle_frame prog conn cur r st = (Break, cur, print_line l st)"
  proof cases
    case 1 then show ?thesis
      by (intro exI [of _ "Error_exception cur"]) (simp add: handle_frame_def)
  next
    case 2 then show ?thesis
      by (intro exI [of _ "Info_connection_closed cur"]) (simp add: handle_frame_def)
  next
    case 3
    have ne: "py_strip d \<noteq> []" and nc: "\<not> py_startswith (py_strip d) ''CONNECT:''"
      using exit_not_connect [OF 3(2)] by auto
    have "d \<noteq> []" using ne py_strip_Nil by auto
    then show ?thesis using 3 ne nc
      by (intro exI [of _ "Info_sent_exit cur"]) (simp add: handle_frame_def Let_def)
  qed
  then obtain l where h: "handle_frame prog conn cur r st = (Break, cur, print_line l st)" by blast
  show "fst (handle_frame prog conn cur r st) = Break" by (simp add: h)
  show "fst (snd (handle_frame prog conn cur r st)) = cur" by (simp add: h)
  show "active_peers (snd (snd (handle_frame prog conn cur r st))) = active_peers st"
    by (simp add: h print_line_def)
  show "close_calls (snd (snd (handle_frame prog conn cur r st))) = close_calls st"
    by (simp add: h print_line_def)
  show "readers (snd (snd (handle_frame prog conn cur r st))) = readers st"
    by (simp add: h print_line_def)
qed

text \<open>
  A frame that is neither empty after trimming, nor a control frame, nor \<^verbatim>\<open>exit\<close> is
  handed on with the reader's current peer address.
\<close>

lemma handle_frame_message:
  assumes ne: "py_strip text \<noteq> []"
      and nc: "\<not> py_startswith (py_strip text) ''CONNECT:''"
      and nx: "py_lower (py_strip text) \<noteq> ''exit''"
  shows "handle_frame prog conn cur (Data text) st =
           (Continue, cur, deliver prog cur (py_strip text) st)"
proof -
  have "text \<noteq> []" using ne py_strip_Nil by auto
  then show ?thesis using ne nc nx by (simp add: handle_frame_def Let_def)
qed

lemma readers_print_line [simp]: "readers (print_line l st) = readers st"
  by (simp add: print_line_def)

lemma printed_print_line [simp]: "printed (print_line l st) = printed st @ [l]"
  by (simp add: print_line_def)

lemma chat_history_print_line [simp]: "chat_history (print_line l st) = chat_history st"
  by (simp add: print_line_def)

lemma close_calls_print_line [simp]: "close_calls (print_line l st) = close_calls st"
  by (simp add: print_line_def)

lemma rekey_other_fields [simp]:
  "readers (rekey cur new conn st) = readers st"
  "printed (rekey cur new conn st) = printed st"
  "chat_history (rekey cur new conn st) = chat_history st"
  "next_sock (rekey cur new conn st) = next_sock st"
  by (simp_all add: rekey_def Let_def)

lemma deliver_fields:
  "active_peers (deliver prog cur m st) = active_peers st"
  "close_calls (deliver prog cur m st) = close_calls st"
  "readers (deliver prog cur m st) = readers st"
  "printed (deliver prog cur m st) = printed st @ [Message_from cur m]"
  "chat_history (deliver prog cur m st) =
     (if prog = App then chat_history st @ [(peer_label cur, m)] else chat_history st)"
  by (simp_all add: deliver_def add_chat_message_def print_line_def Let_def)

text \<open>The three kinds of iteration as steps of the node.\<close>

lemma step_recv_connect:
  assumes sw: "py_startswith (py_strip data) ''CONNECT:''"
      and pi: "py_int (drop 8 (py_strip data)) = Some p"
      and rd: "readers st conn = Some cur"
  shows "step prog (Recv conn (Data data)) st =
           (print_line (Info_updated_connection (fst cur, p)) (rekey cur (fst cur, p) conn st))
             \<lparr>readers := (readers st)(conn \<mapsto> (if prog = App then (fst cur, p) else cur))\<rparr>"
  using rd handle_frame_connect [OF sw pi, of prog conn cur st] by simp

lemma step_recv_message:
  assumes ne: "py_strip text \<noteq> []"
      and nc: "\<not> py_startswith (py_strip text) ''CONNECT:''"
      and nx: "py_lower (py_strip text) \<noteq> ''exit''"
      and rd: "readers st conn = Some cur"
  shows "step prog (Recv conn (Data text)) st =
           (deliver prog cur (py_strip text) st)\<lparr>readers := (readers st)(conn \<mapsto> cur)\<rparr>"
  using rd handle_frame_message [OF ne nc nx, of prog conn cur st] by (simp add: deliver_fields)

lemma step_recv_exit:
  assumes rd: "readers st conn = Some cur"
      and ex: "r = Raises \<or> r = Data [] \<or> (\<exists>d. r = Data d \<and> py_lower (py_strip d) = ''exit'')"
  shows "active_peers (step prog (Recv conn r) st) = (active_peers st)(cur := None)"
    and "close_calls (step prog (Recv conn r) st) = close_calls st @ [conn]"
    and "readers (step prog (Recv conn r) st) conn = None"
proof -
  obtain st' where h: "handle_frame prog conn cur r st = (Break, cur, st')"
    and ap: "active_peers st' = active_peers st" and cc: "close_calls st' = close_calls st"
    using handle_frame_exit_reasons [OF ex, of prog conn cur st]
    by (metis prod.collapse)
  show "active_peers (step prog (Recv conn r) st) = (active_peers st)(cur := None)"
    using rd h ap by (auto simp: reader_exit_def handle_client_finally_def fun_eq_iff)
  show "close_calls (step prog (Recv conn r) st) = close_calls st @ [conn]"
    using rd h cc by (simp add: reader_exit_def handle_client_finally_def)
  show "readers (step prog (Recv conn r) st) conn = None"
    using rd h by (simp add: reader_exit_def handle_client_finally_def)
qed

section \<open>The re-key on a CONNECT frame\<close>

text \<open>
  Claim C2 says that the re-key removes the old address only if it still maps to the
  reader's own connection. The code tests \<^verbatim>\<open>current_peer in active_peers\<close> and pops:
  for every frame that carries a port \<open>p\<close>, in both programs, the registry afterwards
  is the old one without any entry at the old address, whichever socket was stored
  there, and with the reader's socket at the new address.
\<close>

theorem rekey_pops_old_address_whoever_owns_it:
  assumes "received_text data"
      and "py_startswith (py_strip data) ''CONNECT:''"
      and "py_int (drop 8 (py_strip data)) = Some p"
  shows "active_peers (snd (snd (handle_frame prog conn cur (Data data) st))) =
           ((active_peers st)(cur := None))((fst cur, p) \<mapsto> conn)"
  using handle_frame_connect [OF assms(2,3)] by (simp add: active_peers_rekey)

text \<open>
  The theorem at a registry in which the reader's address holds another socket: socket
  1 is stored at port 9000, the reader of socket 0 has that address as its
  \<^verbatim>\<open>current_peer\<close> and receives \<^verbatim>\<open>CONNECT:7000\<close>; the entry of socket 1 is gone.
\<close>

theorem rekey_pops_old_address_witness:
  "active_peers (snd (snd (handle_frame App 0 (''10.0.0.5'', 9000) (Data ''CONNECT:7000'')
      (initial_node\<lparr>active_peers := [(''10.0.0.5'', 9000) \<mapsto> 1]\<rparr>)))) (''10.0.0.5'', 9000) = None"
proof -
  have t: "received_text ''CONNECT:7000''" by (simp add: received_text_def)
  have a: "py_startswith (py_strip ''CONNECT:7000'') ''CONNECT:''" by code_simp
  have b: "py_int (drop 8 (py_strip ''CONNECT:7000'')) = Some 7000" by code_simp
  show ?thesis
    using rekey_pops_old_address_whoever_owns_it [OF t a b, of App 0 "(''10.0.0.5'', 9000)"
        "initial_node\<lparr>active_peers := [(''10.0.0.5'', 9000) \<mapsto> 1]\<rparr>"]
    by simp
qed

text \<open>
  Against C2 as stated, in a run of \<^verbatim>\<open>app.py\<close>: the node dials port 9000 of a host
  (socket 0), the same host connects from port 40000 (socket 1) and announces
  \<^verbatim>\<open>CONNECT:9000\<close>, which puts socket 1 at port 9000 while the reader of socket 0
  still has that address; a \<^verbatim>\<open>CONNECT:7000\<close> then read on socket 0 removes the entry of
  socket 1.
\<close>

theorem rekey_guard_counterexample:
  "active_peers (run App [Send_message (''10.0.0.5'', 9000) ''hi'' (Connected (''10.0.0.5'', 9000)) True,
      Accept (''10.0.0.5'', 40000), Recv 1 (Data ''CONNECT:9000'')] initial_node)
      (''10.0.0.5'', 9000) = Some 1
   \<and> readers (run App [Send_message (''10.0.0.5'', 9000) ''hi'' (Connected (''10.0.0.5'', 9000)) True,
      Accept (''10.0.0.5'', 40000), Recv 1 (Data ''CONNECT:9000'')] initial_node) 0
      = Some (''10.0.0.5'', 9000)
   \<and> active_peers (run App [Send_message (''10.0.0.5'', 9000) ''hi'' (Connected (''10.0.0.5'', 9000)) True,
      Accept (''10.0.0.5'', 40000), Recv 1 (Data ''CONNECT:9000''),
      Recv 0 (Data ''CONNECT:7000'')] initial_node) (''10.0.0.5'', 9000) = None"
  by code_simp

text \<open>
  Claim C4 says that after a well-formed CONNECT frame the reader's current peer address
  is the declared one, and that display, chat tagging and exit cleanup use it from then
  on. That is what \<^verbatim>\<open>app.py\<close> does: after the frame its reader holds the declared
  address, the next ordinary message is printed and stored in the chat history under
  it, and a reader that then leaves its loop removes the entry at the declared address
  and closes its socket. \<^verbatim>\<open>P2P_Chat_Snitcher.py\<close> re-keys the registry and keeps
  \<^verbatim>\<open>current_peer\<close> as it was, as the docstring of its \<^verbatim>\<open>handle_client\<close>
  announces, and prints the next message with the address the connection came from.
\<close>

theorem current_peer_after_connect:
  assumes rt: "received_text data"
      and sw: "py_startswith (py_strip data) ''CONNECT:''"
      and pi: "py_int (drop 8 (py_strip data)) = Some p"
      and rd: "readers st conn = Some cur"
      and mt: "received_text text"
      and ne: "py_strip text \<noteq> []"
      and nc: "\<not> py_startswith (py_strip text) ''CONNECT:''"
      and nx: "py_lower (py_strip text) \<noteq> ''exit''"
      and ex: "r = Raises \<or> r = Data [] \<or> (\<exists>d. r = Data d \<and> py_lower (py_strip d) = ''exit'')"
  shows "fst (snd (handle_frame App conn cur (Data data) st)) = (fst cur, p) \<and>
         readers (step App (Recv conn (Data data)) st) conn = Some (fst cur, p) \<and>
         printed (step App (Recv conn (Data text)) (step App (Recv conn (Data data)) st)) =
           printed st @ [Info_updated_connection (fst cur, p),
                         Message_from (fst cur, p) (py_strip text)] \<and>
         chat_history (step App (Recv conn (Data text)) (step App (Recv conn (Data data)) st)) =
           chat_history st @ [(peer_label (fst cur, p), py_strip text)] \<and>
         active_peers (step App (Recv conn r) (step App (Recv conn (Data data)) st)) =
           ((active_peers st)(cur := None))((fst cur, p) := None) \<and>
         close_calls (step App (Recv conn r) (step App (Recv conn (Data data)) st)) =
           close_calls (step App (Recv conn (Data data)) st) @ [conn] \<and>
         fst (snd (handle_frame P2P_Chat_Snitcher conn cur (Data data) st)) = cur \<and>
         readers (step P2P_Chat_Snitcher (Recv conn (Data data)) st) conn = Some cur \<and>
         printed (step P2P_Chat_Snitcher (Recv conn (Data text))
                    (step P2P_Chat_Snitcher (Recv conn (Data data)) st)) =
           printed st @ [Info_updated_connection (fst cur, p), Message_from cur (py_strip text)]"
proof -
  let ?new = "(fst cur, p)"
  let ?a = "step App (Recv conn (Data data)) st"
  let ?s = "step P2P_Chat_Snitcher (Recv conn (Data data)) st"
  have a: "?a = (print_line (Info_updated_connection ?new) (rekey cur ?new conn st))
                  \<lparr>readers := (readers st)(conn \<mapsto> ?new)\<rparr>"
    using step_recv_connect [OF sw pi rd, of App] by (simp del: step.simps)
  have s: "?s = (print_line (Info_updated_connection ?new) (rekey cur ?new conn st))
                  \<lparr>readers := (readers st)(conn \<mapsto> cur)\<rparr>"
    using step_recv_connect [OF sw pi rd, of P2P_Chat_Snitcher] by (simp del: step.simps)
  have ra: "readers ?a conn = Some ?new" by (subst a) simp
  have rs: "readers ?s conn = Some cur" by (subst s) simp
  have pa: "printed ?a = printed st @ [Info_updated_connection ?new]" by (subst a) simp
  have ps: "printed ?s = printed st @ [Info_updated_connection ?new]" by (subst s) simp
  have ca: "chat_history ?a = chat_history st" by (subst a) simp
  have aa: "active_peers ?a = ((active_peers st)(cur := None))(?new \<mapsto> conn)"
    by (subst a) (simp add: active_peers_rekey)
  have c1: "fst (snd (handle_frame App conn cur (Data data) st)) = ?new"
    using handle_frame_connect [OF sw pi, of App conn cur st] by simp
  have ma: "step App (Recv conn (Data text)) ?a =
      (deliver App ?new (py_strip text) ?a)\<lparr>readers := (readers ?a)(conn \<mapsto> ?new)\<rparr>"
    by (rule step_recv_message [OF ne nc nx ra])
  have ms: "step P2P_Chat_Snitcher (Recv conn (Data text)) ?s =
      (deliver P2P_Chat_Snitcher cur (py_strip text) ?s)\<lparr>readers := (readers ?s)(conn \<mapsto> cur)\<rparr>"
    by (rule step_recv_message [OF ne nc nx rs])
  have c2: "printed (step App (Recv conn (Data text)) ?a) =
      printed st @ [Info_updated_connection ?new, Message_from ?new (py_strip text)]"
    by (subst ma) (simp add: deliver_fields pa del: step.simps)
  have c3: "chat_history (step App (Recv conn (Data text)) ?a) =
      chat_history st @ [(peer_label ?new, py_strip text)]"
    by (subst ma) (simp add: deliver_fields ca del: step.simps)
  have c4: "active_peers (step App (Recv conn r) ?a) =
      ((active_peers st)(cur := None))(?new := None)"
    by (subst step_recv_exit(1) [OF ra ex]) (simp add: aa del: step.simps)
  have c5: "close_calls (step App (Recv conn r) ?a) = close_calls ?a @ [conn]"
    by (rule step_recv_exit(2) [OF ra ex])
  have c6: "fst (snd (handle_frame P2P_Chat_Snitcher conn cur (Data data) st)) = cur"
    using handle_frame_connect [OF sw pi, of P2P_Chat_Snitcher conn cur st] by simp
  have c7: "printed (step P2P_Chat_Snitcher (Recv conn (Data text)) ?s) =
      printed st @ [Info_updated_connection ?new, Message_from cur (py_strip text)]"
    by (subst ms) (simp add: deliver_fields ps del: step.simps)
  show ?thesis using c1 ra c2 c3 c4 c5 c6 rs c7 by blast
qed

text \<open>
  The theorem for a peer accepted from port 54321 that sends \<^verbatim>\<open>CONNECT:8000\<close>, then
  \<^verbatim>\<open>hello\<close> followed by a line feed, then closes the connection.
\<close>

theorem current_peer_after_connect_witness:
  "readers (step App (Recv 0 (Data ''CONNECT:8000''))
      (server_thread_accept (''10.0.0.5'', 54321) initial_node)) 0 = Some (''10.0.0.5'', 8000) \<and>
   printed (step App (Recv 0 (Data (''hello'' @ [CHR 0x0A])))
      (step App (Recv 0 (Data ''CONNECT:8000''))
         (server_thread_accept (''10.0.0.5'', 54321) initial_node))) =
     [Info_accepted (''10.0.0.5'', 54321), Info_updated_connection (''10.0.0.5'', 8000),
      Message_from (''10.0.0.5'', 8000) ''hello''] \<and>
   chat_history (step App (Recv 0 (Data (''hello'' @ [CHR 0x0A])))
      (step App (Recv 0 (Data ''CONNECT:8000''))
         (server_thread_accept (''10.0.0.5'', 54321) initial_node))) =
     [(peer_label (''10.0.0.5'', 8000), ''hello'')] \<and>
   active_peers (step App (Recv 0 (Data []))
      (step App (Recv 0 (Data ''CONNECT:8000''))
         (server_thread_accept (''10.0.0.5'', 54321) initial_node))) (''10.0.0.5'', 8000) = None \<and>
   printed (step P2P_Chat_Snitcher (Recv 0 (Data (''hello'' @ [CHR 0x0A])))
      (step P2P_Chat_Snitcher (Recv 0 (Data ''CONNECT:8000''))
         (server_thread_accept (''10.0.0.5'', 54321) initial_node))) =
     [Info_accepted (''10.0.0.5'', 54321), Info_updated_connection (''10.0.0.5'', 8000),
      Message_from (''10.0.0.5'', 54321) ''hello'']"
proof -
  let ?st = "server_thread_accept (''10.0.0.5'', 54321) initial_node"
  have rt: "received_text ''CONNECT:8000''" by (simp add: received_text_def)
  have sw: "py_startswith (py_strip ''CONNECT:8000'') ''CONNECT:''" by code_simp
  have pi: "py_int (drop 8 (py_strip ''CONNECT:8000'')) = Some 8000" by code_simp
  have rd: "readers ?st 0 = Some (''10.0.0.5'', 54321)" by code_simp
  have mt: "received_text (''hello'' @ [CHR 0x0A])" by (simp add: received_text_def)
  have m: "py_strip (''hello'' @ [CHR 0x0A]) = ''hello''" by code_simp
  have ne: "py_strip (''hello'' @ [CHR 0x0A]) \<noteq> []" unfolding m by simp
  have nc: "\<not> py_startswith (py_strip (''hello'' @ [CHR 0x0A])) ''CONNECT:''" by code_simp
  have nx: "py_lower (py_strip (''hello'' @ [CHR 0x0A])) \<noteq> ''exit''" by code_simp
  have ex: "Data [] = Raises \<or> Data [] = Data [] \<or>
      (\<exists>d. Data [] = Data d \<and> py_lower (py_strip d) = ''exit'')" by simp
  have p0: "printed ?st = [Info_accepted (''10.0.0.5'', 54321)]" by code_simp
  have h0: "chat_history ?st = []" by code_simp
  show ?thesis
    using current_peer_after_connect [OF rt sw pi rd mt ne nc nx ex]
    unfolding m by (simp add: p0 h0 del: step.simps)
qed

text \<open>
  Against C4 as stated: in \<^verbatim>\<open>P2P_Chat_Snitcher.py\<close> the current peer after
  \<^verbatim>\<open>CONNECT:8000\<close> is not the declared address, and the next message is printed with
  the port the connection came from.
\<close>

theorem current_peer_not_updated_counterexample:
  "fst (snd (handle_frame P2P_Chat_Snitcher 0 (''10.0.0.5'', 54321) (Data ''CONNECT:8000'')
      (server_thread_accept (''10.0.0.5'', 54321) initial_node))) \<noteq> (''10.0.0.5'', 8000)
   \<and> printed (run P2P_Chat_Snitcher [Accept (''10.0.0.5'', 54321),
        Recv 0 (Data ''CONNECT:8000''), Recv 0 (Data ''hello'')] initial_node)
      = [Info_accepted (''10.0.0.5'', 54321), Info_updated_connection (''10.0.0.5'', 8000),
         Message_from (''10.0.0.5'', 54321) ''hello'']"
  by code_simp

text \<open>
  Claim C5, the handshake round trip, in both programs: the listener accepts a connection
  from \<open>(host, p_eph)\<close> and stores the new socket there; the reader of that socket
  then receives a frame that carries the port \<open>p_decl\<close>. Afterwards the registry
  holds the same socket at \<open>(host, p_decl)\<close>, and nothing at \<open>(host, p_eph)\<close> when
  the two ports differ (when they are equal the two keys are one key).
\<close>

theorem handshake_rekey_round_trip:
  assumes "received_text data"
      and "py_startswith (py_strip data) ''CONNECT:''"
      and "py_int (drop 8 (py_strip data)) = Some p_decl"
  shows "active_peers (server_thread_accept (host, p_eph) st) (host, p_eph) = Some (next_sock st) \<and>
         active_peers (step prog (Recv (next_sock st) (Data data))
                         (server_thread_accept (host, p_eph) st)) (host, p_decl)
           = Some (next_sock st) \<and>
         (p_decl \<noteq> p_eph \<longrightarrow>
            active_peers (step prog (Recv (next_sock st) (Data data))
                            (server_thread_accept (host, p_eph) st)) (host, p_eph) = None)"
proof -
  let ?st1 = "server_thread_accept (host, p_eph) st"
  have r: "readers ?st1 (next_sock st) = Some (host, p_eph)"
    by (simp add: server_thread_accept_def Let_def print_line_def)
  have a: "active_peers ?st1 (host, p_eph) = Some (next_sock st)"
    by (simp add: server_thread_accept_def Let_def print_line_def)
  have h: "handle_frame prog (next_sock st) (host, p_eph) (Data data) ?st1 =
      (Continue, (if prog = App then (host, p_decl) else (host, p_eph)),
       print_line (Info_updated_connection (host, p_decl))
         (rekey (host, p_eph) (host, p_decl) (next_sock st) ?st1))"
    using handle_frame_connect [OF assms(2,3), of prog "next_sock st" "(host, p_eph)" ?st1] by simp
  have s: "active_peers (step prog (Recv (next_sock st) (Data data)) ?st1) =
      ((active_peers ?st1)((host, p_eph) := None))((host, p_decl) \<mapsto> next_sock st)"
    using r h by (simp add: active_peers_rekey)
  show ?thesis using a s by simp
qed

text \<open>The scenario of the specification: host 10.0.0.5, ports 54321 and 8000.\<close>

theorem handshake_rekey_round_trip_witness:
  "active_peers (server_thread_accept (''10.0.0.5'', 54321) initial_node) (''10.0.0.5'', 54321)
     = Some 0 \<and>
   active_peers (step App (Recv 0 (Data ''CONNECT:8000''))
     (server_thread_accept (''10.0.0.5'', 54321) initial_node)) (''10.0.0.5'', 8000) = Some 0 \<and>
   active_peers (step App (Recv 0 (Data ''CONNECT:8000''))
     (server_thread_accept (''10.0.0.5'', 54321) initial_node)) (''10.0.0.5'', 54321) = None"
proof -
  have t: "received_text ''CONNECT:8000''" by (simp add: received_text_def)
  have a: "py_startswith (py_strip ''CONNECT:8000'') ''CONNECT:''" by code_simp
  have b: "py_int (drop 8 (py_strip ''CONNECT:8000'')) = Some 8000" by code_simp
  have n: "next_sock initial_node = 0" by (simp add: initial_node_def)
  show ?thesis
    using handshake_rekey_round_trip [OF t a b, of "''10.0.0.5''" 54321 initial_node App]
    unfolding n by simp
qed

text \<open>
  Claim C7, re-key idempotence: the re-key block run twice with the same old address
  \<open>A\<close>, new address \<open>B\<close> and socket leaves the registry that one run leaves; it
  holds the socket at \<open>B\<close>, and nothing at \<open>A\<close> when \<open>A\<close> and \<open>B\<close> are
  different addresses.
\<close>

theorem rekey_twice:
  "active_peers (rekey A B conn (rekey A B conn st)) = active_peers (rekey A B conn st) \<and>
   active_peers (rekey A B conn (rekey A B conn st)) B = Some conn \<and>
   (A \<noteq> B \<longrightarrow> active_peers (rekey A B conn (rekey A B conn st)) A = None)"
  by (auto simp: active_peers_rekey fun_eq_iff)

theorem rekey_twice_witness:
  "active_peers (rekey (''10.0.0.5'', 54321) (''10.0.0.5'', 8000) 0
      (rekey (''10.0.0.5'', 54321) (''10.0.0.5'', 8000) 0
         (server_thread_accept (''10.0.0.5'', 54321) initial_node)))
      (''10.0.0.5'', 8000) = Some 0 \<and>
   active_peers (rekey (''10.0.0.5'', 54321) (''10.0.0.5'', 8000) 0
      (rekey (''10.0.0.5'', 54321) (''10.0.0.5'', 8000) 0
         (server_thread_accept (''10.0.0.5'', 54321) initial_node)))
      (''10.0.0.5'', 54321) = None"
proof -
  have ne: "(''10.0.0.5'', 54321 :: int) \<noteq> (''10.0.0.5'', 8000)" by simp
  show ?thesis
    using ne rekey_twice [of "(''10.0.0.5'', 54321)" "(''10.0.0.5'', 8000)" 0
        "server_thread_accept (''10.0.0.5'', 54321) initial_node"]
    by blast
qed

section \<open>The end of a reader\<close>

text \<open>
  Claim C3 says that a reader leaving its loop removes its current peer address only if
  that address still maps to its own connection. The \<^verbatim>\<open>finally\<close> block tests only
  that the address is a key. For each of the three ways out of the loop, in both
  programs: the entry at the reader's current peer address is removed, whichever socket
  it holds, the rest of the registry is untouched, the reader's own socket is closed
  by one call, and the thread is over.
\<close>

theorem reader_exit_pops_current_peer_whoever_owns_it:
  assumes "readers st conn = Some cur"
      and "r = Raises \<or> r = Data [] \<or> (\<exists>d. r = Data d \<and> py_lower (py_strip d) = ''exit'')"
  shows "active_peers (step prog (Recv conn r) st) = (active_peers st)(cur := None) \<and>
         close_calls (step prog (Recv conn r) st) = close_calls st @ [conn] \<and>
         readers (step prog (Recv conn r) st) conn = None"
proof -
  obtain st' where h: "handle_frame prog conn cur r st = (Break, cur, st')"
    and ap: "active_peers st' = active_peers st" and cc: "close_calls st' = close_calls st"
    using handle_frame_exit_reasons [OF assms(2), of prog conn cur st]
    by (metis prod.collapse)
  show ?thesis using assms(1) h ap cc
    by (auto simp: reader_exit_def handle_client_finally_def fun_eq_iff)
qed

theorem reader_exit_pops_current_peer_witness:
  "active_peers (step App (Recv 0 (Data ''Exit''))
      (initial_node\<lparr>active_peers := [(''10.0.0.5'', 9000) \<mapsto> 1],
                    readers := [0 \<mapsto> (''10.0.0.5'', 9000)]\<rparr>))
      (''10.0.0.5'', 9000) = None \<and>
   close_calls (step App (Recv 0 (Data ''Exit''))
      (initial_node\<lparr>active_peers := [(''10.0.0.5'', 9000) \<mapsto> 1],
                    readers := [0 \<mapsto> (''10.0.0.5'', 9000)]\<rparr>)) = [0]"
proof -
  have a: "readers (initial_node\<lparr>active_peers := [(''10.0.0.5'', 9000) \<mapsto> 1],
      readers := [0 \<mapsto> (''10.0.0.5'', 9000)]\<rparr>) 0 = Some (''10.0.0.5'', 9000)"
    by simp
  have "py_lower (py_strip ''Exit'') = ''exit''" by code_simp
  then have b: "Data ''Exit'' = Raises \<or> Data ''Exit'' = Data [] \<or>
      (\<exists>d. Data ''Exit'' = Data d \<and> py_lower (py_strip d) = ''exit'')"
    by blast
  show ?thesis
    using reader_exit_pops_current_peer_whoever_owns_it [OF a b, of App]
    by (simp add: initial_node_def)
qed

text \<open>
  Against C3 as stated, in a run of \<^verbatim>\<open>app.py\<close>: the node dials port 9000 of a host
  (socket 0); the same host connects back (socket 1) and announces \<^verbatim>\<open>CONNECT:9000\<close>,
  so the re-key closes socket 0 and stores socket 1 at port 9000. The reader of socket
  0 then fails in \<^verbatim>\<open>recv\<close> and its \<^verbatim>\<open>finally\<close> block deletes the entry of socket 1,
  whose reader is still running.
\<close>

theorem reader_exit_guard_counterexample:
  "active_peers (run App [Send_message (''10.0.0.5'', 9000) ''hi'' (Connected (''10.0.0.5'', 9000)) True,
      Accept (''10.0.0.5'', 40000), Recv 1 (Data ''CONNECT:9000'')] initial_node)
      (''10.0.0.5'', 9000) = Some 1
   \<and> readers (run App [Send_message (''10.0.0.5'', 9000) ''hi'' (Connected (''10.0.0.5'', 9000)) True,
      Accept (''10.0.0.5'', 40000), Recv 1 (Data ''CONNECT:9000'')] initial_node) 0
      = Some (''10.0.0.5'', 9000)
   \<and> active_peers (run App [Send_message (''10.0.0.5'', 9000) ''hi'' (Connected (''10.0.0.5'', 9000)) True,
      Accept (''10.0.0.5'', 40000), Recv 1 (Data ''CONNECT:9000''), Recv 0 Raises] initial_node)
      (''10.0.0.5'', 9000) = None
   \<and> readers (run App [Send_message (''10.0.0.5'', 9000) ''hi'' (Connected (''10.0.0.5'', 9000)) True,
      Accept (''10.0.0.5'', 40000), Recv 1 (Data ''CONNECT:9000''), Recv 0 Raises] initial_node) 1
      = Some (''10.0.0.5'', 9000)"
  by code_simp

section \<open>Dispatch on the text of a frame\<close>

text \<open>
  Claim C10: the test for the control frame is \<^verbatim>\<open>message.startswith("CONNECT:")\<close> on
  the trimmed text, with no change of letter case. For a received text whose trimmed
  form does not start with exactly \<^verbatim>\<open>CONNECT:\<close>, the registry, the closed sockets
  and the reader's current peer stay as they were. One that starts with
  \<^verbatim>\<open>connect:\<close> in some other letter case is an ordinary chat message: the loop goes
  on, the trimmed text is printed under the current peer address, and \<^verbatim>\<open>app.py\<close>
  appends it to the chat history under that address (the command-line program has no
  chat history). A text that is \<^verbatim>\<open>exit\<close> in any letter case ends the loop.
\<close>

theorem connect_prefix_is_case_sensitive:
  assumes "received_text data"
  shows
  "(\<not> py_startswith (py_strip data) ''CONNECT:'' \<longrightarrow>
      active_peers (snd (snd (handle_frame prog conn cur (Data data) st))) = active_peers st \<and>
      close_calls (snd (snd (handle_frame prog conn cur (Data data) st))) = close_calls st \<and>
      fst (snd (handle_frame prog conn cur (Data data) st)) = cur) \<and>
   (\<not> py_startswith (py_strip data) ''CONNECT:'' \<and>
      py_startswith (py_lower (py_strip data)) ''connect:'' \<longrightarrow>
      fst (handle_frame prog conn cur (Data data) st) = Continue \<and>
      printed (snd (snd (handle_frame prog conn cur (Data data) st))) =
        printed st @ [Message_from cur (py_strip data)] \<and>
      chat_history (snd (snd (handle_frame App conn cur (Data data) st))) =
        chat_history st @ [(peer_label cur, py_strip data)] \<and>
      chat_history (snd (snd (handle_frame P2P_Chat_Snitcher conn cur (Data data) st))) =
        chat_history st) \<and>
   (py_lower (py_strip data) = ''exit'' \<longrightarrow>
      fst (handle_frame prog conn cur (Data data) st) = Break)"
proof (intro conjI impI)
  assume nc: "\<not> py_startswith (py_strip data) ''CONNECT:''"
  show "active_peers (snd (snd (handle_frame prog conn cur (Data data) st))) = active_peers st"
    using nc by (simp add: handle_frame_def Let_def deliver_fields)
  show "close_calls (snd (snd (handle_frame prog conn cur (Data data) st))) = close_calls st"
    using nc by (simp add: handle_frame_def Let_def deliver_fields)
  show "fst (snd (handle_frame prog conn cur (Data data) st)) = cur"
    using nc by (simp add: handle_frame_def Let_def)
next
  assume a: "\<not> py_startswith (py_strip data) ''CONNECT:'' \<and>
      py_startswith (py_lower (py_strip data)) ''connect:''"
  have l: "length ''connect:'' = 8" by simp
  have t: "take 8 (py_lower (py_strip data)) = ''connect:''"
    using a unfolding py_startswith_def l by simp
  have "length (take 8 (py_lower (py_strip data))) = 8" unfolding t by simp
  then have len: "8 \<le> length (py_strip data)" by (simp add: py_lower_def)
  then have ne: "py_strip data \<noteq> []" by auto
  have "length (py_lower (py_strip data)) \<noteq> 4" using len by (simp add: py_lower_def)
  then have nx: "py_lower (py_strip data) \<noteq> ''exit''" by auto
  have nc: "\<not> py_startswith (py_strip data) ''CONNECT:''" using a by simp
  note h = handle_frame_message [OF ne nc nx]
  show "fst (handle_frame prog conn cur (Data data) st) = Continue" by (simp add: h)
  show "printed (snd (snd (handle_frame prog conn cur (Data data) st))) =
        printed st @ [Message_from cur (py_strip data)]"
    by (simp add: h deliver_fields)
  show "chat_history (snd (snd (handle_frame App conn cur (Data data) st))) =
        chat_history st @ [(peer_label cur, py_strip data)]"
    by (simp add: h deliver_fields)
  show "chat_history (snd (snd (handle_frame P2P_Chat_Snitcher conn cur (Data data) st))) =
        chat_history st"
    by (simp add: h deliver_fields)
next
  assume e: "py_lower (py_strip data) = ''exit''"
  have "Data data = Raises \<or> Data data = Data [] \<or>
      (\<exists>d. Data data = Data d \<and> py_lower (py_strip d) = ''exit'')"
    using e by blast
  then show "fst (handle_frame prog conn cur (Data data) st) = Break"
    by (rule handle_frame_exit_reasons(1))
qed

text \<open>
  Untrimmed frames on a freshly accepted connection: \<^verbatim>\<open>connect:8000\<close> between two
  blanks and a line feed, and \<^verbatim>\<open>EXIT\<close> followed by carriage return and line feed.
\<close>

theorem connect_prefix_is_case_sensitive_witness:
  "active_peers (snd (snd (handle_frame App 0 (''10.0.0.5'', 54321)
       (Data (''  connect:8000'' @ [CHR 0x0A]))
       (server_thread_accept (''10.0.0.5'', 54321) initial_node))))
     = active_peers (server_thread_accept (''10.0.0.5'', 54321) initial_node) \<and>
   fst (handle_frame App 0 (''10.0.0.5'', 54321) (Data (''  connect:8000'' @ [CHR 0x0A]))
       (server_thread_accept (''10.0.0.5'', 54321) initial_node)) = Continue \<and>
   printed (snd (snd (handle_frame App 0 (''10.0.0.5'', 54321)
       (Data (''  connect:8000'' @ [CHR 0x0A]))
       (server_thread_accept (''10.0.0.5'', 54321) initial_node))))
     = [Info_accepted (''10.0.0.5'', 54321),
        Message_from (''10.0.0.5'', 54321) ''connect:8000''] \<and>
   chat_history (snd (snd (handle_frame App 0 (''10.0.0.5'', 54321)
       (Data (''  connect:8000'' @ [CHR 0x0A]))
       (server_thread_accept (''10.0.0.5'', 54321) initial_node))))
     = [(peer_label (''10.0.0.5'', 54321), ''connect:8000'')] \<and>
   fst (handle_frame App 0 (''10.0.0.5'', 54321) (Data (''EXIT'' @ [CHR 0x0D, CHR 0x0A]))
       (server_thread_accept (''10.0.0.5'', 54321) initial_node)) = Break"
proof -
  let ?st = "server_thread_accept (''10.0.0.5'', 54321) initial_node"
  have t1: "received_text (''  connect:8000'' @ [CHR 0x0A])" by (simp add: received_text_def)
  have t2: "received_text (''EXIT'' @ [CHR 0x0D, CHR 0x0A])" by (simp add: received_text_def)
  have s: "py_strip (''  connect:8000'' @ [CHR 0x0A]) = ''connect:8000''" by code_simp
  have a: "\<not> py_startswith ''connect:8000'' ''CONNECT:''" by code_simp
  have b: "py_startswith (py_lower ''connect:8000'') ''connect:''" by code_simp
  have c: "py_lower (py_strip (''EXIT'' @ [CHR 0x0D, CHR 0x0A])) = ''exit''" by code_simp
  have p0: "printed ?st = [Info_accepted (''10.0.0.5'', 54321)]" by code_simp
  have h0: "chat_history ?st = []" by code_simp
  show ?thesis
    using a b c
      connect_prefix_is_case_sensitive [OF t1, of App 0 "(''10.0.0.5'', 54321)" ?st]
      connect_prefix_is_case_sensitive [OF t2, of App 0 "(''10.0.0.5'', 54321)" ?st]
    unfolding s by (simp add: p0 h0)
qed

section \<open>Sending\<close>

text \<open>
  Claim C9, the exit sentinel. \<^verbatim>\<open>send_message\<close> takes no answer of the peer, so what
  it does cannot depend on one. When \<^verbatim>\<open>sendall\<close> returns and the payload lowered is
  \<^verbatim>\<open>exit\<close>, the target address is removed and the socket used is closed, both for a
  socket found in the registry and for one just dialled. When the payload is anything
  else, nothing is removed and nothing is closed: the entry that was found, or the one
  just made, stays.
\<close>

theorem exit_sentinel:
  "(active_peers st target = Some sock \<and> py_lower message = ''exit'' \<longrightarrow>
      active_peers (snd (send_message target message c True st)) = (active_peers st)(target := None) \<and>
      close_calls (snd (send_message target message c True st)) = close_calls st @ [sock]) \<and>
   (active_peers st target = None \<and> py_lower message = ''exit'' \<longrightarrow>
      active_peers (snd (send_message target message (Connected peername) True st))
        = ((active_peers st)(peername \<mapsto> next_sock st))(target := None) \<and>
      close_calls (snd (send_message target message (Connected peername) True st))
        = close_calls st @ [next_sock st]) \<and>
   (active_peers st target = Some sock \<and> py_lower message \<noteq> ''exit'' \<longrightarrow>
      active_peers (snd (send_message target message c True st)) = active_peers st \<and>
      close_calls (snd (send_message target message c True st)) = close_calls st) \<and>
   (active_peers st target = None \<and> py_lower message \<noteq> ''exit'' \<longrightarrow>
      active_peers (snd (send_message target message (Connected peername) True st))
        = (active_peers st)(peername \<mapsto> next_sock st) \<and>
      close_calls (snd (send_message target message (Connected peername) True st)) = close_calls st)"
  by (simp add: send_message_def lookup_or_connect_def pop_and_close_def print_line_def Let_def)

theorem exit_sentinel_witness:
  "active_peers (snd (send_message (''10.0.0.9'', 7000) ''ExIt'' Connect_raises True
      (initial_node\<lparr>active_peers := [(''10.0.0.9'', 7000) \<mapsto> 3], next_sock := 4\<rparr>))) (''10.0.0.9'', 7000) = None \<and>
   close_calls (snd (send_message (''10.0.0.9'', 7000) ''ExIt'' Connect_raises True
      (initial_node\<lparr>active_peers := [(''10.0.0.9'', 7000) \<mapsto> 3], next_sock := 4\<rparr>))) = [3] \<and>
   active_peers (snd (send_message (''10.0.0.9'', 7000) ''exit'' (Connected (''10.0.0.9'', 7000)) True initial_node)) (''10.0.0.9'', 7000) = None \<and>
   close_calls (snd (send_message (''10.0.0.9'', 7000) ''exit'' (Connected (''10.0.0.9'', 7000)) True initial_node)) = [0] \<and>
   active_peers (snd (send_message (''10.0.0.9'', 7000) ''hello'' Connect_raises True
      (initial_node\<lparr>active_peers := [(''10.0.0.9'', 7000) \<mapsto> 3], next_sock := 4\<rparr>))) (''10.0.0.9'', 7000) = Some 3 \<and>
   active_peers (snd (send_message (''10.0.0.9'', 7000) ''hello'' (Connected (''10.0.0.9'', 7000)) True initial_node)) (''10.0.0.9'', 7000) = Some 0"
proof -
  have e1: "py_lower ''ExIt'' = ''exit''" by code_simp
  have e2: "py_lower ''exit'' = ''exit''" by code_simp
  have e3: "py_lower ''hello'' \<noteq> ''exit''" by code_simp
  have n: "next_sock initial_node = 0" "close_calls initial_node = []" "active_peers initial_node = Map.empty"
    by (simp_all add: initial_node_def)
  show ?thesis
    using e1 e2 e3
      exit_sentinel [of "initial_node\<lparr>active_peers := [(''10.0.0.9'', 7000) \<mapsto> 3], next_sock := 4\<rparr>"
        "(''10.0.0.9'', 7000)" 3 "''ExIt''" Connect_raises "(''10.0.0.9'', 7000)"]
      exit_sentinel [of initial_node "(''10.0.0.9'', 7000)" 3 "''exit''" Connect_raises "(''10.0.0.9'', 7000)"]
      exit_sentinel [of "initial_node\<lparr>active_peers := [(''10.0.0.9'', 7000) \<mapsto> 3], next_sock := 4\<rparr>"
        "(''10.0.0.9'', 7000)" 3 "''hello''" Connect_raises "(''10.0.0.9'', 7000)"]
      exit_sentinel [of initial_node "(''10.0.0.9'', 7000)" 3 "''hello''" Connect_raises "(''10.0.0.9'', 7000)"]
    by (simp add: n)
qed

text \<open>
  Claim C8 says that \<^verbatim>\<open>send_message\<close> and \<^verbatim>\<open>connect_to_peer\<close> hand their caller a
  result that tells success from failure. Neither function returns a value: on every
  path the caller gets \<^verbatim>\<open>None\<close>. A failure shows only in what is printed and in the
  registry. A failed connect prints its two lines, leaves the registry as it was and
  closes nothing. A failed write on a socket found in the registry prints, removes the
  entry at the target address and closes that socket. A failed write on a socket just
  dialled prints, removes the entry at the target address and closes the new socket;
  the entry made under the peer name is gone with it only when the peer name is the
  target.
\<close>

theorem send_and_connect_return_none:
  "fst (send_message target message c ok st) = None \<and>
   fst (connect_to_peer port target c ok st) = None \<and>
   (active_peers st target = None \<longrightarrow>
      active_peers (snd (send_message target message Connect_raises ok st)) = active_peers st \<and>
      close_calls (snd (send_message target message Connect_raises ok st)) = close_calls st \<and>
      printed (snd (send_message target message Connect_raises ok st)) =
        printed st @ [Debug_attempting target, Error_could_not_connect target] \<and>
      sent (snd (send_message target message Connect_raises ok st)) = sent st \<and>
      active_peers (snd (connect_to_peer port target Connect_raises ok st)) = active_peers st \<and>
      close_calls (snd (connect_to_peer port target Connect_raises ok st)) = close_calls st \<and>
      printed (snd (connect_to_peer port target Connect_raises ok st)) =
        printed st @ [Debug_attempting target, Error_could_not_connect target] \<and>
      sent (snd (connect_to_peer port target Connect_raises ok st)) = sent st) \<and>
   (active_peers st target = Some sock \<longrightarrow>
      active_peers (snd (send_message target message c False st)) =
        (active_peers st)(target := None) \<and>
      close_calls (snd (send_message target message c False st)) = close_calls st @ [sock] \<and>
      printed (snd (send_message target message c False st)) =
        printed st @ [Error_failed_to_send] \<and>
      sent (snd (send_message target message c False st)) = sent st \<and>
      active_peers (snd (connect_to_peer port target c False st)) =
        (active_peers st)(target := None) \<and>
      close_calls (snd (connect_to_peer port target c False st)) = close_calls st @ [sock] \<and>
      printed (snd (connect_to_peer port target c False st)) =
        printed st @ [Error_failed_to_send_connection] \<and>
      sent (snd (connect_to_peer port target c False st)) = sent st) \<and>
   (active_peers st target = None \<longrightarrow>
      active_peers (snd (send_message target message (Connected peername) False st)) =
        ((active_peers st)(peername \<mapsto> next_sock st))(target := None) \<and>
      close_calls (snd (send_message target message (Connected peername) False st)) =
        close_calls st @ [next_sock st] \<and>
      printed (snd (send_message target message (Connected peername) False st)) =
        printed st @ [Debug_attempting target, Error_failed_to_send] \<and>
      sent (snd (send_message target message (Connected peername) False st)) = sent st \<and>
      active_peers (snd (connect_to_peer port target (Connected peername) False st)) =
        ((active_peers st)(peername \<mapsto> next_sock st))(target := None) \<and>
      close_calls (snd (connect_to_peer port target (Connected peername) False st)) =
        close_calls st @ [next_sock st] \<and>
      printed (snd (connect_to_peer port target (Connected peername) False st)) =
        printed st @ [Debug_attempting target, Error_failed_to_send_connection] \<and>
      sent (snd (connect_to_peer port target (Connected peername) False st)) = sent st)"
  by (simp add: send_message_def connect_to_peer_def lookup_or_connect_def pop_and_close_def
      print_line_def Let_def split: option.splits connect_result.splits)

text \<open>
  The three kinds of failure at concrete inputs: a refused connect, a failed write on
  a registered socket, and a failed write after dialling \<^verbatim>\<open>localhost\<close>, where the
  closed socket stays registered under 127.0.0.1.
\<close>

theorem send_and_connect_return_none_witness:
  "printed (snd (send_message (''10.0.0.9'', 7000) ''hello'' Connect_raises True initial_node)) =
     [Debug_attempting (''10.0.0.9'', 7000), Error_could_not_connect (''10.0.0.9'', 7000)] \<and>
   active_peers (snd (send_message (''10.0.0.9'', 7000) ''hello'' Connect_raises False
          (initial_node\<lparr>active_peers := [(''10.0.0.9'', 7000) \<mapsto> 3], next_sock := 4\<rparr>)))
     (''10.0.0.9'', 7000) = None \<and>
   close_calls (snd (send_message (''10.0.0.9'', 7000) ''hello'' Connect_raises False
          (initial_node\<lparr>active_peers := [(''10.0.0.9'', 7000) \<mapsto> 3], next_sock := 4\<rparr>)))
     = [3] \<and>
   active_peers (snd (send_message (''localhost'', 7000) ''hello''
          (Connected (''127.0.0.1'', 7000)) False initial_node)) (''127.0.0.1'', 7000) = Some 0 \<and>
   close_calls (snd (send_message (''localhost'', 7000) ''hello''
          (Connected (''127.0.0.1'', 7000)) False initial_node)) = [0]"
proof -
  have n: "next_sock initial_node = 0" "active_peers initial_node = Map.empty"
      "close_calls initial_node = []" "printed initial_node = []"
    by (simp_all add: initial_node_def)
  show ?thesis
    using send_and_connect_return_none [of "(''10.0.0.9'', 7000)" "''hello''" Connect_raises True
        initial_node 9000 3 "(''10.0.0.9'', 7000)"]
      send_and_connect_return_none [of "(''10.0.0.9'', 7000)" "''hello''" Connect_raises False
        "initial_node\<lparr>active_peers := [(''10.0.0.9'', 7000) \<mapsto> 3], next_sock := 4\<rparr>" 9000 3
        "(''10.0.0.9'', 7000)"]
      send_and_connect_return_none [of "(''localhost'', 7000)" "''hello''" Connect_raises True
        initial_node 9000 3 "(''127.0.0.1'', 7000)"]
    by (simp add: n)
qed

text \<open>
  Against C8 as stated: a failed connect, a failed write and a successful send give
  the caller the same value; they differ only in what is printed and written.
\<close>

theorem send_result_counterexample:
  "fst (send_message (''10.0.0.9'', 7000) ''hello'' Connect_raises True initial_node)
     = fst (send_message (''10.0.0.9'', 7000) ''hello'' (Connected (''10.0.0.9'', 7000)) True initial_node)
   \<and> fst (send_message (''10.0.0.9'', 7000) ''hello'' (Connected (''10.0.0.9'', 7000)) False initial_node)
     = fst (send_message (''10.0.0.9'', 7000) ''hello'' (Connected (''10.0.0.9'', 7000)) True initial_node)
   \<and> fst (connect_to_peer 9000 (''10.0.0.9'', 7000) Connect_raises True initial_node)
     = fst (connect_to_peer 9000 (''10.0.0.9'', 7000) (Connected (''10.0.0.9'', 7000)) True initial_node)
   \<and> printed (snd (send_message (''10.0.0.9'', 7000) ''hello'' Connect_raises True initial_node))
     = [Debug_attempting (''10.0.0.9'', 7000), Error_could_not_connect (''10.0.0.9'', 7000)]
   \<and> printed (snd (send_message (''10.0.0.9'', 7000) ''hello'' (Connected (''10.0.0.9'', 7000)) True initial_node))
     = [Debug_attempting (''10.0.0.9'', 7000), Info_message_sent (''10.0.0.9'', 7000)]
   \<and> sent (snd (send_message (''10.0.0.9'', 7000) ''hello'' (Connected (''10.0.0.9'', 7000)) True initial_node))
     = [(0, ''hello'')]"
  by (simp add: send_message_def connect_to_peer_def lookup_or_connect_def initial_node_def
      print_line_def pop_and_close_def py_lower_def py_lower_char_def Let_def)


section \<open>Registration over an occupied address\<close>

text \<open>
  Claim C6 says that every registration at an occupied address closes the socket that was
  there. Only the re-key does. \<^verbatim>\<open>P2P_Chat_Snitcher.py\<close>, sending twice to
  \<^verbatim>\<open>localhost\<close>, port 9000: the lookup under the name finds nothing, each call dials
  and stores its socket under the peer name 127.0.0.1, and the second store replaces
  socket 0 with no call of \<^verbatim>\<open>close\<close>. The same happens when the listener accepts
  twice from one address. The last line is the re-key, which does close the socket it
  replaces.
\<close>

theorem insert_without_close_of_elder:
  "active_peers (run P2P_Chat_Snitcher
      [Send_message (''localhost'', 9000) ''team: one'' (Connected (''127.0.0.1'', 9000)) True]
      initial_node) (''127.0.0.1'', 9000) = Some 0
   \<and> active_peers (run P2P_Chat_Snitcher
      [Send_message (''localhost'', 9000) ''team: one'' (Connected (''127.0.0.1'', 9000)) True,
       Send_message (''localhost'', 9000) ''team: two'' (Connected (''127.0.0.1'', 9000)) True]
      initial_node) (''127.0.0.1'', 9000) = Some 1
   \<and> close_calls (run P2P_Chat_Snitcher
      [Send_message (''localhost'', 9000) ''team: one'' (Connected (''127.0.0.1'', 9000)) True,
       Send_message (''localhost'', 9000) ''team: two'' (Connected (''127.0.0.1'', 9000)) True]
      initial_node) = []
   \<and> active_peers (run P2P_Chat_Snitcher
      [Accept (''10.0.0.5'', 54321), Accept (''10.0.0.5'', 54321)] initial_node)
      (''10.0.0.5'', 54321) = Some 1
   \<and> close_calls (run P2P_Chat_Snitcher
      [Accept (''10.0.0.5'', 54321), Accept (''10.0.0.5'', 54321)] initial_node) = []
   \<and> close_calls (run P2P_Chat_Snitcher
      [Accept (''10.0.0.5'', 54321), Accept (''10.0.0.5'', 54322),
       Recv 0 (Data ''CONNECT:8000''), Recv 1 (Data ''CONNECT:8000'')] initial_node) = [0]"
  by code_simp

section \<open>Registry entries and their readers\<close>

text \<open>
  Claim C1 says that once a reader has left its loop and closed its socket, no entry of
  the registry holds that socket. In \<^verbatim>\<open>P2P_Chat_Snitcher.py\<close> a peer connects,
  announces \<^verbatim>\<open>CONNECT:8000\<close> and disconnects: the \<^verbatim>\<open>finally\<close> block pops the
  address the connection came from, which is no longer a key, and the entry at port
  8000 stays with the closed socket. The same run of \<^verbatim>\<open>app.py\<close> leaves no entry.
\<close>

theorem stale_entry_after_reader_exit:
  "active_peers (run P2P_Chat_Snitcher
      [Accept (''10.0.0.5'', 54321), Recv 0 (Data ''CONNECT:8000''), Recv 0 (Data [])]
      initial_node) (''10.0.0.5'', 8000) = Some 0
   \<and> readers (run P2P_Chat_Snitcher
      [Accept (''10.0.0.5'', 54321), Recv 0 (Data ''CONNECT:8000''), Recv 0 (Data [])]
      initial_node) 0 = None
   \<and> close_calls (run P2P_Chat_Snitcher
      [Accept (''10.0.0.5'', 54321), Recv 0 (Data ''CONNECT:8000''), Recv 0 (Data [])]
      initial_node) = [0]
   \<and> active_peers (run App
      [Accept (''10.0.0.5'', 54321), Recv 0 (Data ''CONNECT:8000''), Recv 0 (Data [])]
      initial_node) (''10.0.0.5'', 8000) = None"
  by code_simp

text \<open>
  \<^verbatim>\<open>app.py\<close> keeps the invariant in every run: its reader moves \<^verbatim>\<open>current_peer\<close>
  with the re-key, so a stored socket always has a running reader at that very key, and
  a reader that has ended has no entry left.
\<close>

lemma handle_frame_App_cases:
  assumes "handle_frame App conn cur r st = (ctl, cur', st')"
  shows "readers st' = readers st \<and> next_sock st' = next_sock st \<and>
         ((active_peers st' = active_peers st \<and> cur' = cur) \<or>
          (ctl = Continue \<and> active_peers st' = ((active_peers st)(cur := None))(cur' \<mapsto> conn)))"
  using assms
  by (auto simp: handle_frame_def Let_def print_line_def deliver_def add_chat_message_def
        active_peers_rekey
      split: recv_result.splits if_splits option.splits)

lemma registry_owned_fresh:
  assumes o: "registry_owned st"
      and ap: "active_peers st' = (active_peers st)(a \<mapsto> next_sock st)"
      and rd: "readers st' = (readers st)(next_sock st \<mapsto> a)"
      and ns: "next_sock st' = Suc (next_sock st)"
  shows "registry_owned st'"
  unfolding registry_owned_def ap rd ns
proof (intro conjI allI impI)
  fix b c
  assume h: "((active_peers st)(a \<mapsto> next_sock st)) b = Some c"
  show "((readers st)(next_sock st \<mapsto> a)) c = Some b"
  proof (cases "b = a")
    case True then show ?thesis using h by simp
  next
    case False
    then have apb: "active_peers st b = Some c" using h by simp
    then have rc: "readers st c = Some b" using o unfolding registry_owned_def by blast
    then have "c < next_sock st" using o unfolding registry_owned_def by blast
    then show ?thesis using rc by simp
  qed
next
  fix c b
  assume "((readers st)(next_sock st \<mapsto> a)) c = Some b"
  then have "c = next_sock st \<or> readers st c = Some b" by (auto split: if_splits)
  then have "c \<le> next_sock st" using o unfolding registry_owned_def by (auto intro: less_imp_le)
  then show "c < Suc (next_sock st)" by simp
qed

lemma registry_owned_same:
  assumes o: "registry_owned st"
      and ap: "active_peers st' = active_peers st"
      and rd: "readers st' = readers st"
      and ns: "next_sock st \<le> next_sock st'"
  shows "registry_owned st'"
  unfolding registry_owned_def ap rd
proof (intro conjI allI impI)
  fix a c assume "active_peers st a = Some c"
  then show "readers st c = Some a" using o unfolding registry_owned_def by blast
next
  fix c a assume "readers st c = Some a"
  then have "c < next_sock st" using o unfolding registry_owned_def by blast
  then show "c < next_sock st'" using ns by simp
qed

lemma registry_owned_accept: "registry_owned st \<Longrightarrow> registry_owned (server_thread_accept addr st)"
  by (erule registry_owned_fresh [where a = addr])
     (simp_all add: server_thread_accept_def Let_def print_line_def)

lemma registry_owned_pop:
  "registry_owned st \<Longrightarrow> registry_owned (pop_and_close target sock st)"
  unfolding registry_owned_def by (auto simp: pop_and_close_def)

lemma registry_owned_print: "registry_owned st \<Longrightarrow> registry_owned (print_line l st)"
  by (erule registry_owned_same) (simp_all add: print_line_def)

lemma registry_owned_sent: "registry_owned st \<Longrightarrow> registry_owned (st\<lparr>sent := x\<rparr>)"
  by (erule registry_owned_same) simp_all

lemma registry_owned_lookup_or_connect:
  assumes o: "registry_owned st"
  shows "registry_owned (snd (lookup_or_connect target c st))"
proof (cases "active_peers st target")
  case (Some sock)
  then show ?thesis using o by (simp add: lookup_or_connect_def)
next
  case None
  show ?thesis
  proof (cases c)
    case Connect_raises
    show ?thesis
      by (rule registry_owned_same [OF o])
         (simp_all add: lookup_or_connect_def None Connect_raises Let_def print_line_def)
  next
    case (Connected peername)
    show ?thesis
      by (rule registry_owned_fresh [OF o, where a = peername])
         (simp_all add: lookup_or_connect_def None Connected Let_def print_line_def)
  qed
qed

lemma registry_owned_send_message:
  assumes "registry_owned st"
  shows "registry_owned (snd (send_message target message c ok st))"
proof -
  obtain so st1 where l: "lookup_or_connect target c st = (so, st1)" by fastforce
  have o: "registry_owned st1" using registry_owned_lookup_or_connect [OF assms, of target c] l by simp
  show ?thesis
    using o l
    by (cases so) (auto simp: send_message_def Let_def
        intro!: registry_owned_pop registry_owned_print registry_owned_sent)
qed

lemma registry_owned_connect_to_peer:
  assumes "registry_owned st"
  shows "registry_owned (snd (connect_to_peer port target c ok st))"
proof -
  obtain so st1 where l: "lookup_or_connect target c st = (so, st1)" by fastforce
  have o: "registry_owned st1" using registry_owned_lookup_or_connect [OF assms, of target c] l by simp
  show ?thesis
    using o l
    by (cases so) (auto simp: connect_to_peer_def Let_def
        intro!: registry_owned_pop registry_owned_print registry_owned_sent)
qed

lemma active_peers_reader_exit:
  "active_peers (reader_exit conn cur st) = (active_peers st)(cur := None)"
  by (simp add: reader_exit_def handle_client_finally_def fun_eq_iff domIff)

lemma readers_reader_exit: "readers (reader_exit conn cur st) = (readers st)(conn := None)"
  by (simp add: reader_exit_def handle_client_finally_def)

lemma next_sock_reader_exit: "next_sock (reader_exit conn cur st) = next_sock st"
  by (simp add: reader_exit_def handle_client_finally_def)

lemma registry_owned_reader_exit:
  assumes o: "registry_owned st" and r: "readers st conn = Some cur"
  shows "registry_owned (reader_exit conn cur st)"
  unfolding registry_owned_def active_peers_reader_exit readers_reader_exit next_sock_reader_exit
proof (intro conjI allI impI)
  fix a c
  assume h: "((active_peers st)(cur := None)) a = Some c"
  then have ne: "a \<noteq> cur" and ap: "active_peers st a = Some c" by (auto split: if_splits)
  have rc: "readers st c = Some a" using o ap unfolding registry_owned_def by blast
  have "c \<noteq> conn" using rc r ne by auto
  then show "((readers st)(conn := None)) c = Some a" using rc by simp
next
  fix c a
  assume "((readers st)(conn := None)) c = Some a"
  then have "readers st c = Some a" by (auto split: if_splits)
  then show "c < next_sock st" using o unfolding registry_owned_def by blast
qed

lemma registry_owned_recv:
  assumes o: "registry_owned st"
  shows "registry_owned (step App (Recv conn r) st)"
proof (cases "readers st conn")
  case None
  then show ?thesis using o by simp
next
  case (Some cur)
  obtain ctl cur' st' where h: "handle_frame App conn cur r st = (ctl, cur', st')"
    by (metis prod_cases3)
  note c = handle_frame_App_cases [OF h]
  show ?thesis
  proof (cases ctl)
    case Continue
    from c have rs: "readers st' = readers st" and ns: "next_sock st' = next_sock st" by auto
    from c consider (same) "active_peers st' = active_peers st" "cur' = cur"
      | (moved) "active_peers st' = ((active_peers st)(cur := None))(cur' \<mapsto> conn)" by blast
    then have "registry_owned (st'\<lparr>readers := (readers st')(conn \<mapsto> cur')\<rparr>)"
    proof cases
      case same
      have "(readers st)(conn \<mapsto> cur) = readers st" using Some by (simp add: fun_upd_idem)
      then show ?thesis using o same rs ns unfolding registry_owned_def by simp
    next
      case moved
      show ?thesis unfolding registry_owned_def
      proof (intro conjI allI impI)
        fix a c
        assume "active_peers (st'\<lparr>readers := (readers st')(conn \<mapsto> cur')\<rparr>) a = Some c"
        then have h: "(((active_peers st)(cur := None))(cur' \<mapsto> conn)) a = Some c"
          using moved by simp
        show "readers (st'\<lparr>readers := (readers st')(conn \<mapsto> cur')\<rparr>) c = Some a"
        proof (cases "a = cur'")
          case True then show ?thesis using h by simp
        next
          case False
          then have ne: "a \<noteq> cur" and ap: "active_peers st a = Some c"
            using h by (auto split: if_splits)
          have rc: "readers st c = Some a" using o ap unfolding registry_owned_def by blast
          have "c \<noteq> conn" using rc Some ne by auto
          then show ?thesis using rc rs by simp
        qed
      next
        fix c a
        assume "readers (st'\<lparr>readers := (readers st')(conn \<mapsto> cur')\<rparr>) c = Some a"
        then have "c = conn \<or> readers st c = Some a" using rs by (auto split: if_splits)
        then have "c < next_sock st" using o Some unfolding registry_owned_def by blast
        then show "c < next_sock (st'\<lparr>readers := (readers st')(conn \<mapsto> cur')\<rparr>)"
          using ns by simp
      qed
    qed
    then show ?thesis using Some h Continue by simp
  next
    case Break
    then have ap: "active_peers st' = active_peers st" and cu: "cur' = cur" using c by auto
    from c have rs: "readers st' = readers st" and ns: "next_sock st' = next_sock st" by auto
    have "registry_owned st'" using o ap rs ns unfolding registry_owned_def by simp
    moreover have "readers st' conn = Some cur'" using c Some cu by simp
    ultimately have "registry_owned (reader_exit conn cur' st')" by (rule registry_owned_reader_exit)
    then show ?thesis using Some h Break by simp
  qed
qed

lemma registry_owned_step: "registry_owned st \<Longrightarrow> registry_owned (step App a st)"
proof (cases a)
  case (Accept x) then show "registry_owned st \<Longrightarrow> ?thesis" by (simp add: registry_owned_accept)
next
  case (Recv c r) then show "registry_owned st \<Longrightarrow> ?thesis" by (simp only: registry_owned_recv)
next
  case (Reader_sees_shutdown c)
  then show "registry_owned st \<Longrightarrow> ?thesis"
    by (cases "readers st c") (simp_all add: registry_owned_reader_exit)
next
  case (Send_message t m c ok)
  then show "registry_owned st \<Longrightarrow> ?thesis" by (simp add: registry_owned_send_message)
next
  case (Connect_to_peer p t c ok)
  then show "registry_owned st \<Longrightarrow> ?thesis" by (simp add: registry_owned_connect_to_peer)
qed

lemma registry_owned_run: "registry_owned st \<Longrightarrow> registry_owned (run App as st)"
  by (induction as arbitrary: st) (simp_all add: registry_owned_step)

lemma registry_owned_initial: "registry_owned initial_node"
  by (simp add: registry_owned_def initial_node_def)

lemma app_registry_entries_have_running_reader:
  "active_peers (run App as initial_node) a = Some c \<Longrightarrow> readers (run App as initial_node) c = Some a"
  using registry_owned_run [OF registry_owned_initial, of as]
  unfolding registry_owned_def by blast


end
